theory Spec2Isabelle
  imports Main "HOL-Library.Sublist"
begin

section \<open>Magic Mirror: the GitHub operations of \<open>src/github.ts\<close>\<close>

text \<open>
  The module talks to two collaborators: the authenticated GitHub client (Octokit) and the
  pending-PR database. Neither is part of the module, so both are parameters of the model:
  an endpoint is a function from the request object to either the value thrown (\<open>Inl\<close>)
  or the data the awaited call resolves to (\<open>Inr\<close>). Every operation returns, next to its
  own result, the list of collaborator calls it issued, in order.
  An \<open>async\<close> function that rejects is modelled by the result \<open>Inl\<close> of the rejection
  value, one that resolves by \<open>Inr\<close>.
\<close>

subsection \<open>JavaScript values, strings and numbers\<close>

text \<open>Decimal rendering of a non-negative integer, as \<open>Number.prototype.toString\<close> gives it.\<close>

definition digit_char :: "nat \<Rightarrow> char" where
  "digit_char d = ''0123456789'' ! d"

function string_of_nat :: "nat \<Rightarrow> string" where
  "string_of_nat n =
     (if n < 10 then [digit_char n] else string_of_nat (n div 10) @ [digit_char (n mod 10)])"
  by pat_completeness auto
termination
  by (relation "measure (\<lambda>n. n)") auto

declare string_of_nat.simps [simp del]

definition string_of_int :: "int \<Rightarrow> string" where
  "string_of_int i = (if i < 0 then ''-'' @ string_of_nat (nat (- i)) else string_of_nat (nat i))"

text \<open>
  The values an \<open>any\<close>-typed error can take: the parameter \<open>err\<close> of
  \<open>createFailureIssue\<close> and whatever a \<open>catch\<close> clause binds. An error object carries its
  \<open>name\<close>, its \<open>message\<close> and, for an HTTP error of the client, the response status.
\<close>

datatype js_any =
    JUndefined
  | JNull
  | JBool bool
  | JNum int
  | JStr string
  | JErrorObj string string "nat option"

text \<open>The condition of \<open>if (v)\<close>.\<close>

fun truthy :: "js_any \<Rightarrow> bool" where
  "truthy JUndefined = False"
| "truthy JNull = False"
| "truthy (JBool b) = b"
| "truthy (JNum i) = (i \<noteq> 0)"
| "truthy (JStr s) = (s \<noteq> [])"
| "truthy (JErrorObj n m st) = True"

text \<open>
  String conversion, as a template literal or \<open>+\<close> with a string performs it; for an error
  object this is \<open>Error.prototype.toString\<close>.
\<close>

fun to_string :: "js_any \<Rightarrow> string" where
  "to_string JUndefined = ''undefined''"
| "to_string JNull = ''null''"
| "to_string (JBool b) = (if b then ''true'' else ''false'')"
| "to_string (JNum i) = string_of_int i"
| "to_string (JStr s) = s"
| "to_string (JErrorObj n m st) =
     (if n = [] then m else if m = [] then n else n @ '': '' @ m)"

text \<open>\<open>new Error(msg)\<close>.\<close>

definition new_Error :: "string \<Rightarrow> js_any" where
  "new_Error msg = JErrorObj ''Error'' msg None"

text \<open>An optional number: \<open>undefined\<close> is \<open>None\<close>. Its truthiness and its rendering.\<close>

fun truthy_num :: "nat option \<Rightarrow> bool" where
  "truthy_num None = False"
| "truthy_num (Some n) = (n \<noteq> 0)"

fun string_of_opt_num :: "nat option \<Rightarrow> string" where
  "string_of_opt_num None = ''undefined''"
| "string_of_opt_num (Some n) = string_of_nat n"

text \<open>\<open>Array.prototype.join\<close> on an array of strings.\<close>

fun join :: "string list \<Rightarrow> string \<Rightarrow> string" where
  "join [] sep = []"
| "join [x] sep = x"
| "join (x # y # ys) sep = x @ sep @ join (y # ys) sep"

text \<open>
  A JavaScript \<open>Set\<close> keeps its members in insertion order and holds each at most once;
  \<open>new Set(iterable)\<close> adds the elements one after the other.
\<close>

definition set_add :: "'a list \<Rightarrow> 'a \<Rightarrow> 'a list" where
  "set_add s x = (if x \<in> set s then s else s @ [x])"

definition new_Set :: "'a list \<Rightarrow> 'a list" where
  "new_Set xs = foldl set_add [] xs"

text \<open>
  The two emoji of the issue template, as their UTF-8 bytes
  (U+1F63F crying cat face, U+1FA9E mirror).
\<close>

definition crying_cat :: string where
  "crying_cat = [CHR 0xF0, CHR 0x9F, CHR 0x98, CHR 0xBF]"

definition mirror :: string where
  "mirror = [CHR 0xF0, CHR 0x9F, CHR 0xAA, CHR 0x9E]"

text \<open>The fence that opens and closes a code block, and a fenced block around a text.\<close>

definition fence :: string where
  "fence = ''```''"

definition fenced :: "string \<Rightarrow> string" where
  "fenced s = fence @ ''\<newline>'' @ s @ ''\<newline>'' @ fence"

subsection \<open>The pending-PR record\<close>

text \<open>
  Modelled from the spec: the declarations of \<open>PendingPR\<close>, \<open>PRAction\<close> and the repository
  reference live in \<open>src/db.ts\<close>, which is absent. The fields are those the spec's data
  model lists and \<open>mergePR\<close> reads and writes.
\<close>

record Repository =
  organization :: string
  name :: string

datatype PRAction = Pending | Merged | Blocked

record PendingPR =
  repo :: Repository
  upstreamRepo :: Repository
  branch :: string
  upstreamPRIDs :: "nat list"
  upstreamAuthors :: "string list"
  prID :: "nat option"
  githubIssue :: "nat option"
  action :: PRAction

subsection \<open>Requests and responses of the GitHub client\<close>

record issue_create_req =
  ic_owner :: string
  ic_repo :: string
  ic_title :: string
  ic_body :: string
  ic_assignees :: "string list option"

record comment_req =
  cc_owner :: string
  cc_repo :: string
  cc_issue_number :: nat
  cc_body :: string

record pull_get_req =
  pg_owner :: string
  pg_repo :: string
  pg_pull_number :: nat

record pull_update_req =
  pu_owner :: string
  pu_repo :: string
  pu_pull_number :: nat
  pu_body :: string
  pu_assignees :: "string list"

record get_branch_req =
  gb_owner :: string
  gb_repo :: string
  gb_branch :: string

record merge_req =
  mg_owner :: string
  mg_repo :: string
  mg_pull_number :: "nat option"
  mg_merge_method :: string
  mg_sha :: string

record get_content_req =
  gc_owner :: string
  gc_repo :: string
  gc_path :: string
  gc_ref :: string
  gc_format :: string

text \<open>\<open>resp.data\<close> of \<open>pulls.get\<close>: the body and the assignees may be \<open>null\<close>.\<close>

record gh_user =
  login :: string

record pull_data =
  pd_body :: "string option"
  pd_assignees :: "gh_user list option"

text \<open>\<open>branch.data.protection\<close> of \<open>repos.getBranch\<close>.\<close>

record status_checks =
  contexts :: "string list"

record protection =
  enabled :: bool
  required_status_checks :: "status_checks option"

text \<open>
  \<open>getOwners\<close> does not read \<open>data\<close> of what \<open>repos.getContent\<close> resolves to, as the
  other operations do, but inspects the resolved value itself. So this endpoint gives the
  whole value: an array or an object, the object as the list of its own properties. The
  values of properties are JSON values.
\<close>

datatype js_value =
    VNull
  | VBool bool
  | VNum nat
  | VStr string
  | VArray "js_value list"
  | VObject "(string \<times> js_value) list"

datatype resolved =
    ResolvedArray "js_value list"
  | ResolvedObject "(string \<times> js_value) list"

text \<open>
  The response object every call of the client resolves to: its properties are \<open>status\<close>,
  \<open>url\<close>, \<open>headers\<close> and \<open>data\<close>, and the payload of the host is under \<open>data\<close>, where
  \<open>createFailureIssue\<close>, \<open>updatePR\<close> and \<open>getRequiredChecks\<close> read it
  (\<open>resp.data.number\<close>, \<open>resp.data.body\<close>, \<open>branch.data.protection\<close>).
\<close>

definition octokit_response ::
  "nat \<Rightarrow> string \<Rightarrow> (string \<times> js_value) list \<Rightarrow> js_value \<Rightarrow> resolved" where
  "octokit_response status url headers payload =
     ResolvedObject [(''status'', VNum status), (''url'', VStr url),
                     (''headers'', VObject headers), (''data'', payload)]"

record octokit =
  issues_create :: "issue_create_req \<Rightarrow> js_any + nat"
  issues_createComment :: "comment_req \<Rightarrow> js_any + unit"
  pulls_get :: "pull_get_req \<Rightarrow> js_any + pull_data"
  pulls_update :: "pull_update_req \<Rightarrow> js_any + unit"
  repos_getBranch :: "get_branch_req \<Rightarrow> js_any + protection"
  pulls_merge :: "merge_req \<Rightarrow> js_any + unit"
  repos_getContent :: "get_content_req \<Rightarrow> js_any + resolved"

text \<open>
  The database: \<open>setPendingPR\<close> resolves (\<open>None\<close>) or rejects with a value.
\<close>

record Database =
  setPendingPR :: "PendingPR \<Rightarrow> js_any option"

text \<open>The calls an operation can issue to its collaborators.\<close>

datatype call =
    IssuesCreate issue_create_req
  | IssuesCreateComment comment_req
  | PullsGet pull_get_req
  | PullsUpdate pull_update_req
  | ReposGetBranch get_branch_req
  | PullsMerge merge_req
  | ReposGetContent get_content_req
  | DbSetPendingPR PendingPR

fun is_merge :: "call \<Rightarrow> bool" where
  "is_merge (PullsMerge r) = True"
| "is_merge c = False"

fun is_update :: "call \<Rightarrow> bool" where
  "is_update (PullsUpdate r) = True"
| "is_update c = False"

fun is_store_write :: "call \<Rightarrow> bool" where
  "is_store_write (DbSetPendingPR p) = True"
| "is_store_write c = False"

text \<open>The records an operation handed to the store.\<close>

fun records_written :: "call list \<Rightarrow> PendingPR list" where
  "records_written [] = []"
| "records_written (DbSetPendingPR p # cs) = p # records_written cs"
| "records_written (c # cs) = records_written cs"

subsection \<open>\<open>createFailureIssue\<close>\<close>

definition issue_title :: "nat list \<Rightarrow> string" where
  "issue_title upstreamIDs =
     crying_cat @ '' Failed to sync the upstream PRs: #'' @
     join (map string_of_nat upstreamIDs) '', #''"

definition paused_phrase :: "string \<Rightarrow> string \<Rightarrow> string \<Rightarrow> string" where
  "paused_phrase org rp br =
     ''Syncing is paused for the branch '' @ br @ '' on '' @ org @ ''/'' @ rp @
     '' until the issue is manually resolved and this '' @ ''issue is closed.\<newline>''"

definition issue_body ::
  "string \<Rightarrow> string \<Rightarrow> string \<Rightarrow> string \<Rightarrow> nat list \<Rightarrow> string \<Rightarrow> nat option \<Rightarrow>
   string list option \<Rightarrow> js_any \<Rightarrow> string" where
  "issue_body org rp upstreamOrg br upstreamIDs reason pr patchCmd err =
     (let prPrefix = ''\<newline>* '' @ upstreamOrg @ ''/'' @ rp @ ''#'';
          body0 = mirror @ '' Magic Mirror '' @ mirror @
                  '' failed to sync the following upstream pull-requests because '' @ reason @ '':'' @
                  prPrefix @ join (map string_of_nat upstreamIDs) prPrefix @ ''\<newline>\<newline>'';
          body1 = (if truthy_num pr
                   then body0 @ ''The pull-request (#'' @ string_of_opt_num pr @
                        '') can be reviewed for more information.\<newline>\<newline>''
                   else body0);
          body2 = body1 @ paused_phrase org rp br;
          body3 = (if truthy err
                   then body2 @ ''\<newline>Syncing error:\<newline>```\<newline>'' @ to_string err @
                        ''\<newline>```\<newline>''
                   else body2);
          body4 = (case patchCmd of
                     Some cmds \<Rightarrow>
                       body3 @ ''\<newline>Commands to recreate the issue:\<newline>'' @
                       ''\<newline>```\<newline>'' @ join cmds ''\<newline>'' @ ''\<newline>```\<newline>''
                   | None \<Rightarrow> body3)
      in body4 @ ''\<newline>![sad Yoda](https://media.giphy.com/media/3o7qDK5J5Uerg3atJ6/giphy.gif)'')"

definition createFailureIssue ::
  "octokit \<Rightarrow> string \<Rightarrow> string \<Rightarrow> string \<Rightarrow> string \<Rightarrow> nat list \<Rightarrow> string \<Rightarrow> nat option \<Rightarrow>
   string list option \<Rightarrow> string list option \<Rightarrow> js_any \<Rightarrow> (js_any + nat) \<times> call list" where
  "createFailureIssue client org rp upstreamOrg br upstreamIDs reason pr assignees patchCmd err =
     (let req = \<lparr>ic_owner = org, ic_repo = rp, ic_title = issue_title upstreamIDs,
                 ic_body = issue_body org rp upstreamOrg br upstreamIDs reason pr patchCmd err,
                 ic_assignees = assignees\<rparr>
      in (issues_create client req, [IssuesCreate req]))"

subsection \<open>\<open>addComment\<close> and \<open>updatePR\<close>\<close>

text \<open>Both resolve to the error they caught, or to \<open>undefined\<close> (\<open>None\<close>); neither rejects.\<close>

definition addComment ::
  "octokit \<Rightarrow> string \<Rightarrow> string \<Rightarrow> nat \<Rightarrow> string \<Rightarrow> js_any option \<times> call list" where
  "addComment client org rp ident message =
     (let req = \<lparr>cc_owner = org, cc_repo = rp, cc_issue_number = ident, cc_body = message\<rparr>
      in (case issues_createComment client req of
            Inr u \<Rightarrow> (None, [IssuesCreateComment req])
          | Inl err \<Rightarrow> (Some err, [IssuesCreateComment req])))"

definition updatePR ::
  "octokit \<Rightarrow> string \<Rightarrow> string \<Rightarrow> nat \<Rightarrow> string list \<Rightarrow> string \<Rightarrow> js_any option \<times> call list" where
  "updatePR client org rp ident assignees message =
     (let greq = \<lparr>pg_owner = org, pg_repo = rp, pg_pull_number = ident\<rparr>
      in (case pulls_get client greq of
            Inl err \<Rightarrow> (Some err, [PullsGet greq])
          | Inr resp \<Rightarrow>
              (case pd_body resp of
                 None \<Rightarrow> (None, [PullsGet greq])
               | Some body \<Rightarrow>
                   (let assignees' =
                          (if pd_assignees resp \<noteq> None \<and> length (the (pd_assignees resp)) > 0
                           then (case pd_assignees resp of
                                   Some us \<Rightarrow> map login us
                                 | None \<Rightarrow> [])
                           else assignees);
                        body' = body @ ''\<newline>\<newline>'' @ message;
                        ureq = \<lparr>pu_owner = org, pu_repo = rp, pu_pull_number = ident,
                                pu_body = body', pu_assignees = assignees'\<rparr>
                    in (case pulls_update client ureq of
                          Inr u \<Rightarrow> (None, [PullsGet greq, PullsUpdate ureq])
                        | Inl err \<Rightarrow> (Some err, [PullsGet greq, PullsUpdate ureq]))))))"

subsection \<open>\<open>getRequiredChecks\<close>\<close>

definition getRequiredChecks ::
  "octokit \<Rightarrow> string \<Rightarrow> string \<Rightarrow> string \<Rightarrow> (js_any + string list) \<times> call list" where
  "getRequiredChecks client org repoName branchName =
     (let req = \<lparr>gb_owner = org, gb_repo = repoName, gb_branch = branchName\<rparr>
      in (case repos_getBranch client req of
            Inl err \<Rightarrow> (Inl err, [ReposGetBranch req])
          | Inr prot \<Rightarrow>
              (if \<not> enabled prot \<or> required_status_checks prot = None
               then (Inr (new_Set []), [ReposGetBranch req])
               else (Inr (new_Set (contexts (the (required_status_checks prot)))),
                     [ReposGetBranch req]))))"

subsection \<open>\<open>mergePR\<close>\<close>

text \<open>
  \<open>mergePR\<close> mutates the record it is given, so the model returns the record as the call
  leaves it, next to the result and the calls issued.
\<close>

definition merge_request :: "PendingPR \<Rightarrow> string \<Rightarrow> merge_req" where
  "merge_request pendingPR head =
     \<lparr>mg_owner = organization (repo pendingPR), mg_repo = name (repo pendingPR),
      mg_pull_number = prID pendingPR, mg_merge_method = ''rebase'', mg_sha = head\<rparr>"

definition merge_failure_reason :: "PendingPR \<Rightarrow> js_any \<Rightarrow> string" where
  "merge_failure_reason pendingPR err =
     ''the pull-request (#'' @ string_of_opt_num (prID pendingPR) @ '') couldn'' @ [CHR 0x27] @
     ''t be merged: '' @ to_string err"

definition mergePR ::
  "octokit \<Rightarrow> Database \<Rightarrow> PendingPR \<Rightarrow> string \<Rightarrow> (js_any + bool) \<times> PendingPR \<times> call list" where
  "mergePR client db pendingPR head =
     (let req = merge_request pendingPR head
      in (case pulls_merge client req of
            Inr u \<Rightarrow> (Inr True, pendingPR, [PullsMerge req])
          | Inl err \<Rightarrow>
              (case createFailureIssue client
                      (organization (repo pendingPR)) (name (repo pendingPR))
                      (organization (upstreamRepo pendingPR)) (branch pendingPR)
                      (upstreamPRIDs pendingPR) (merge_failure_reason pendingPR err)
                      (prID pendingPR) (Some (upstreamAuthors pendingPR)) None JUndefined of
                 (Inl e, cs) \<Rightarrow> (Inl e, pendingPR, PullsMerge req # cs)
               | (Inr issueID, cs) \<Rightarrow>
                   (let pendingPR' = pendingPR\<lparr>githubIssue := Some issueID, action := Blocked\<rparr>
                    in (case setPendingPR db pendingPR' of
                          Some e \<Rightarrow>
                            (Inl e, pendingPR', PullsMerge req # cs @ [DbSetPendingPR pendingPR'])
                        | None \<Rightarrow>
                            (Inr False, pendingPR',
                             PullsMerge req # cs @ [DbSetPendingPR pendingPR']))))))"

subsection \<open>\<open>getOwners\<close>\<close>

text \<open>
  What \<open>yaml.load\<close> can return: \<open>undefined\<close> for an empty document, a scalar, a sequence
  or a mapping (its keys in document order).
\<close>

datatype yaml =
    YUndefined
  | YNull
  | YBool bool
  | YNum int
  | YStr string
  | YSeq "yaml list"
  | YMap "(string \<times> yaml) list"

text \<open>
  The test \<open>typeof o == "object" && o && "approvers" in o && Array.isArray(o.approvers)\<close>,
  returning \<open>o.approvers\<close> where it passes. Of the values \<open>yaml.load\<close> returns only a
  mapping has an \<open>approvers\<close> property.
\<close>

fun approvers_of :: "yaml \<Rightarrow> yaml list option" where
  "approvers_of (YMap kvs) =
     (case map_of kvs ''approvers'' of
        Some (YSeq xs) \<Rightarrow> Some xs
      | _ \<Rightarrow> None)"
| "approvers_of y = None"

text \<open>
  The test \<open>!Array.isArray(o) && "content" in o && typeof o.content == "string"\<close> on the
  resolved value, giving \<open>o.content\<close> where it passes.
\<close>

fun content_string :: "resolved \<Rightarrow> string option" where
  "content_string (ResolvedArray xs) = None"
| "content_string (ResolvedObject props) =
     (case map_of props ''content'' of
        Some (VStr s) \<Rightarrow> Some s
      | _ \<Rightarrow> None)"

definition owners_request :: "string \<Rightarrow> string \<Rightarrow> string \<Rightarrow> get_content_req" where
  "owners_request org repoName branchName =
     \<lparr>gc_owner = org, gc_repo = repoName, gc_path = ''OWNERS'', gc_ref = branchName,
      gc_format = ''application/vnd.github+json''\<rparr>"

definition retrieval_error :: "js_any \<Rightarrow> js_any" where
  "retrieval_error err = new_Error (''failed to retrieve OWNERS file: '' @ to_string err)"

text \<open>
  The two library functions are parameters: \<open>b64\<close> is
  \<open>Buffer.from(s, "base64").toString("utf-8")\<close>, which never throws, and \<open>yaml_load\<close> is
  \<open>yaml.load\<close>, which throws on a document it cannot parse.
\<close>

definition getOwners ::
  "(string \<Rightarrow> string) \<Rightarrow> (string \<Rightarrow> js_any + yaml) \<Rightarrow> octokit \<Rightarrow> string \<Rightarrow> string \<Rightarrow> string \<Rightarrow>
   (js_any + yaml list) \<times> call list" where
  "getOwners b64 yaml_load client org repoName branchName =
     (let req = owners_request org repoName branchName
      in (case repos_getContent client req of
            Inl err \<Rightarrow> (Inl (retrieval_error err), [ReposGetContent req])
          | Inr ownersFileObject \<Rightarrow>
              (case content_string ownersFileObject of
                 Some content \<Rightarrow>
                   (case yaml_load (b64 content) of
                      Inl err \<Rightarrow> (Inl (retrieval_error err), [ReposGetContent req])
                    | Inr ownersObj \<Rightarrow>
                        (case approvers_of ownersObj of
                           Some xs \<Rightarrow> (Inr xs, [ReposGetContent req])
                         | None \<Rightarrow> (Inr [], [ReposGetContent req])))
               | None \<Rightarrow> (Inr [], [ReposGetContent req]))))"

subsection \<open>Notions the properties are stated with\<close>

text \<open>
  The call of \<open>createFailureIssue\<close> in the \<open>catch\<close> clause of \<open>mergePR\<close>, for the record
  and the value caught.
\<close>

definition failure_issue_call :: "octokit \<Rightarrow> PendingPR \<Rightarrow> js_any \<Rightarrow> (js_any + nat) \<times> call list" where
  "failure_issue_call client pendingPR err =
     createFailureIssue client
       (organization (repo pendingPR)) (name (repo pendingPR))
       (organization (upstreamRepo pendingPR)) (branch pendingPR)
       (upstreamPRIDs pendingPR) (merge_failure_reason pendingPR err)
       (prID pendingPR) (Some (upstreamAuthors pendingPR)) None JUndefined"

text \<open>The invariant of the data model: a blocked record has its tracking issue.\<close>

definition blocked_has_issue :: "PendingPR \<Rightarrow> bool" where
  "blocked_has_issue p = (action p = Blocked \<longrightarrow> githubIssue p \<noteq> None)"

text \<open>The response status an error object of the client carries.\<close>

fun http_status :: "js_any \<Rightarrow> nat option" where
  "http_status (JErrorObj n m st) = st"
| "http_status v = None"

subsection \<open>Sample collaborators and inputs\<close>

definition not_found :: js_any where
  "not_found = JErrorObj ''HttpError'' ''Not Found'' (Some 404)"

definition head_modified :: js_any where
  "head_modified = JErrorObj ''HttpError'' ''Head branch was modified. Review and try the merge again.'' (Some 409)"

definition server_error :: js_any where
  "server_error = JErrorObj ''HttpError'' ''Server Error'' (Some 500)"

text \<open>
  The payload of the host for the file \<open>OWNERS\<close> with the text \<open>approvers: [alice]\<close>, and
  the response of the client that carries it.
\<close>

definition sample_owners_file :: "(string \<times> js_value) list" where
  "sample_owners_file =
     [(''type'', VStr ''file''), (''encoding'', VStr ''base64''), (''size'', VNum 19),
      (''name'', VStr ''OWNERS''), (''path'', VStr ''OWNERS''),
      (''content'', VStr ''YXBwcm92ZXJzOiBbYWxpY2VdCg=='')]"

definition sample_owners_response :: resolved where
  "sample_owners_response =
     octokit_response 200 ''https://api.github.com/repos/fork-org/widget/contents/OWNERS?ref=main''
       [(''content-type'', VStr ''application/json; charset=utf-8'')]
       (VObject sample_owners_file)"

text \<open>
  A host on which the pull request's head is \<open>c0ffee\<close>: a merge constrained to another
  commit is rejected. Its pull request has a description and one assignee, its branch is
  protected with a repeated check name, and its OWNERS file is served with content.
\<close>

definition sample_client :: octokit where
  "sample_client =
     \<lparr>issues_create = (\<lambda>r. Inr 7),
      issues_createComment = (\<lambda>r. Inr ()),
      pulls_get = (\<lambda>r. Inr \<lparr>pd_body = Some ''Sync of upstream'',
                               pd_assignees = Some [\<lparr>login = ''alice''\<rparr>]\<rparr>),
      pulls_update = (\<lambda>r. Inr ()),
      repos_getBranch = (\<lambda>r. Inr \<lparr>enabled = True,
                                     required_status_checks = Some \<lparr>contexts = [''ci'', ''lint'', ''ci'']\<rparr>\<rparr>),
      pulls_merge = (\<lambda>r. if mg_sha r = ''c0ffee'' then Inr () else Inl head_modified),
      repos_getContent = (\<lambda>r. Inr sample_owners_response)\<rparr>"

definition sample_db :: Database where
  "sample_db = \<lparr>setPendingPR = (\<lambda>p. None)\<rparr>"

definition sample_pr :: PendingPR where
  "sample_pr =
     \<lparr>repo = \<lparr>organization = ''fork-org'', name = ''widget''\<rparr>,
      upstreamRepo = \<lparr>organization = ''upstream-org'', name = ''widget''\<rparr>,
      branch = ''main'',
      upstreamPRIDs = [101, 102],
      upstreamAuthors = [''carol''],
      prID = Some 12,
      githubIssue = None,
      action = Pending\<rparr>"

text \<open>
  The body of the issue for the upstream pull requests 101 and 102 of \<open>upstream-org/widget\<close>,
  reason \<open>stale head\<close>, branch \<open>main\<close> of \<open>fork-org/widget\<close>, when neither the error
  part nor the commands part is written.
\<close>

definition sample_report_body :: string where
  "sample_report_body =
     mirror @ '' Magic Mirror '' @ mirror @
     '' failed to sync the following upstream pull-requests because stale head:'' @
     ''\<newline>* upstream-org/widget#101\<newline>* upstream-org/widget#102\<newline>\<newline>'' @
     ''Syncing is paused for the branch main on fork-org/widget until the issue is manually resolved and this issue is closed.\<newline>'' @
     ''\<newline>![sad Yoda](https://media.giphy.com/media/3o7qDK5J5Uerg3atJ6/giphy.gif)''"

text \<open>Stand-ins for the two library functions: the decoded text, and two parses of it.\<close>

definition sample_b64 :: "string \<Rightarrow> string" where
  "sample_b64 s = ''approvers: [alice]\<newline>''"

definition yaml_with_approvers :: "string \<Rightarrow> js_any + yaml" where
  "yaml_with_approvers s = Inr (YMap [(''reviewers'', YSeq [YStr ''bob'']), (''approvers'', YSeq [YStr ''alice''])])"

definition yaml_without_approvers :: "string \<Rightarrow> js_any + yaml" where
  "yaml_without_approvers s = Inr (YMap [(''reviewers'', YSeq [YStr ''bob''])])"

section \<open>Properties\<close>

subsection \<open>Sets of required checks\<close>

lemma set_foldl_set_add: "set (foldl set_add acc xs) = set acc \<union> set xs"
  by (induction xs arbitrary: acc) (auto simp: set_add_def)

lemma distinct_foldl_set_add: "distinct acc \<Longrightarrow> distinct (foldl set_add acc xs)"
  by (induction xs arbitrary: acc) (auto simp: set_add_def)

lemma distinct_new_Set: "distinct (new_Set xs)"
  by (simp add: new_Set_def distinct_foldl_set_add)

lemma set_new_Set: "set (new_Set xs) = set xs"
  by (simp add: new_Set_def set_foldl_set_add)

lemma new_Set_Nil: "new_Set [] = []"
  by (simp add: new_Set_def)

text \<open>
  C7. When the branch lookup succeeds: if protection is disabled or there is no
  required-status-checks policy, \<open>getRequiredChecks\<close> returns the empty set; otherwise it
  returns the set built from the configured context names, which holds each name once
  (also when the payload repeats a name) and holds exactly the configured names.
\<close>

theorem getRequiredChecks_set:
  assumes "repos_getBranch client \<lparr>gb_owner = org, gb_repo = repoName, gb_branch = branchName\<rparr> = Inr prot"
  shows "(\<not> enabled prot \<or> required_status_checks prot = None \<longrightarrow>
            fst (getRequiredChecks client org repoName branchName) = Inr [])
       \<and> (\<forall>rsc. enabled prot \<and> required_status_checks prot = Some rsc \<longrightarrow>
            (\<exists>s. fst (getRequiredChecks client org repoName branchName) = Inr s
                 \<and> s = new_Set (contexts rsc) \<and> distinct s \<and> set s = set (contexts rsc)))"
  using assms by (auto simp: getRequiredChecks_def new_Set_Nil distinct_new_Set set_new_Set)

theorem getRequiredChecks_set_witness:
  "fst (getRequiredChecks sample_client ''fork-org'' ''widget'' ''main'') = Inr [''ci'', ''lint'']
   \<and> fst (getRequiredChecks
            (sample_client\<lparr>repos_getBranch :=
               (\<lambda>r. Inr \<lparr>enabled = False, required_status_checks = Some \<lparr>contexts = [''ci'']\<rparr>\<rparr>)\<rparr>)
            ''fork-org'' ''widget'' ''main'') = Inr []"
proof -
  have a: "repos_getBranch sample_client
             \<lparr>gb_owner = ''fork-org'', gb_repo = ''widget'', gb_branch = ''main''\<rparr>
           = Inr \<lparr>enabled = True,
                  required_status_checks = Some \<lparr>contexts = [''ci'', ''lint'', ''ci'']\<rparr>\<rparr>"
    by (simp add: sample_client_def)
  have b: "repos_getBranch
             (sample_client\<lparr>repos_getBranch :=
                (\<lambda>r. Inr \<lparr>enabled = False, required_status_checks = Some \<lparr>contexts = [''ci'']\<rparr>\<rparr>)\<rparr>)
             \<lparr>gb_owner = ''fork-org'', gb_repo = ''widget'', gb_branch = ''main''\<rparr>
           = Inr \<lparr>enabled = False, required_status_checks = Some \<lparr>contexts = [''ci'']\<rparr>\<rparr>"
    by simp
  show ?thesis
    using getRequiredChecks_set [OF a] getRequiredChecks_set [OF b]
    by (simp add: new_Set_def set_add_def)
qed

subsection \<open>Updating a pull request\<close>

text \<open>
  C8, as the claim states it, fails for a body that is present but empty: the guard of
  \<open>updatePR\<close> is \<open>body == null\<close>, which the empty string does not meet, so the update is
  issued with the body \<open>"\n\n" + message\<close>.
\<close>

theorem updatePR_empty_description_counterexample:
  "pulls_get (sample_client\<lparr>pulls_get := (\<lambda>r. Inr \<lparr>pd_body = Some [], pd_assignees = None\<rparr>)\<rparr>)
     \<lparr>pg_owner = ''fork-org'', pg_repo = ''widget'', pg_pull_number = 12\<rparr>
   = Inr \<lparr>pd_body = Some [], pd_assignees = None\<rparr>
   \<and> filter is_update
       (snd (updatePR (sample_client\<lparr>pulls_get := (\<lambda>r. Inr \<lparr>pd_body = Some [], pd_assignees = None\<rparr>)\<rparr>)
               ''fork-org'' ''widget'' 12 [''bob''] ''Merged upstream''))
     = [PullsUpdate \<lparr>pu_owner = ''fork-org'', pu_repo = ''widget'', pu_pull_number = 12,
                     pu_body = ''\<newline>\<newline>Merged upstream'', pu_assignees = [''bob'']\<rparr>]"
  by (simp add: updatePR_def sample_client_def)

text \<open>
  C8, amended. When the pull request is read successfully: if its body is absent (\<open>null\<close>
  or \<open>undefined\<close>), \<open>updatePR\<close> returns without error and issues no update; if it has a
  body, the empty string included, \<open>updatePR\<close> issues exactly one update, for the same
  pull request, whose body is the existing body, a blank line and the message.
\<close>

theorem updatePR_body:
  assumes "pulls_get client \<lparr>pg_owner = org, pg_repo = rp, pg_pull_number = ident\<rparr> = Inr resp"
  shows "(pd_body resp = None \<longrightarrow>
            fst (updatePR client org rp ident assignees message) = None
          \<and> filter is_update (snd (updatePR client org rp ident assignees message)) = [])
       \<and> (\<forall>body. pd_body resp = Some body \<longrightarrow>
            (\<exists>req. filter is_update (snd (updatePR client org rp ident assignees message))
                     = [PullsUpdate req]
                 \<and> pu_body req = body @ ''\<newline>\<newline>'' @ message
                 \<and> pu_owner req = org \<and> pu_repo req = rp \<and> pu_pull_number req = ident))"
  using assms by (auto simp: updatePR_def Let_def split: sum.splits)

theorem updatePR_body_witness:
  "filter is_update (snd (updatePR sample_client ''fork-org'' ''widget'' 12 [''bob''] ''Merged upstream''))
     = [PullsUpdate \<lparr>pu_owner = ''fork-org'', pu_repo = ''widget'', pu_pull_number = 12,
                     pu_body = ''Sync of upstream\<newline>\<newline>Merged upstream'',
                     pu_assignees = [''alice'']\<rparr>]
   \<and> updatePR (sample_client\<lparr>pulls_get := (\<lambda>r. Inr \<lparr>pd_body = None, pd_assignees = None\<rparr>)\<rparr>)
        ''fork-org'' ''widget'' 12 [''bob''] ''Merged upstream''
     = (None, [PullsGet \<lparr>pg_owner = ''fork-org'', pg_repo = ''widget'', pg_pull_number = 12\<rparr>])"
proof -
  have a: "pulls_get sample_client \<lparr>pg_owner = ''fork-org'', pg_repo = ''widget'', pg_pull_number = 12\<rparr>
           = Inr \<lparr>pd_body = Some ''Sync of upstream'', pd_assignees = Some [\<lparr>login = ''alice''\<rparr>]\<rparr>"
    by (simp add: sample_client_def)
  have b: "pulls_get (sample_client\<lparr>pulls_get := (\<lambda>r. Inr \<lparr>pd_body = None, pd_assignees = None\<rparr>)\<rparr>)
             \<lparr>pg_owner = ''fork-org'', pg_repo = ''widget'', pg_pull_number = 12\<rparr>
           = Inr \<lparr>pd_body = None, pd_assignees = None\<rparr>"
    by simp
  show ?thesis
    using updatePR_body [OF a, of "[''bob'']" "''Merged upstream''"]
          updatePR_body [OF b, of "[''bob'']" "''Merged upstream''"]
    by (simp add: updatePR_def sample_client_def)
qed

text \<open>
  C9. When the pull request is read successfully and has a body: if it already has a
  non-empty assignee list, the one update is issued with the logins of those assignees and
  not with the assignees the caller supplied; the supplied assignees are used when the
  pull request has no assignees (the list is \<open>null\<close> or empty).
\<close>

theorem updatePR_assignees:
  assumes "pulls_get client \<lparr>pg_owner = org, pg_repo = rp, pg_pull_number = ident\<rparr> = Inr resp"
      and "pd_body resp = Some body"
  shows "(\<forall>us. pd_assignees resp = Some us \<and> us \<noteq> [] \<longrightarrow>
            (\<exists>req. filter is_update (snd (updatePR client org rp ident assignees message))
                     = [PullsUpdate req]
                 \<and> pu_assignees req = map login us))
       \<and> (pd_assignees resp = None \<or> pd_assignees resp = Some [] \<longrightarrow>
            (\<exists>req. filter is_update (snd (updatePR client org rp ident assignees message))
                     = [PullsUpdate req]
                 \<and> pu_assignees req = assignees))"
  using assms by (auto simp: updatePR_def Let_def split: sum.splits)

theorem updatePR_assignees_witness:
  "(\<exists>req. filter is_update
            (snd (updatePR sample_client ''fork-org'' ''widget'' 12 [''bob''] ''Merged upstream''))
          = [PullsUpdate req] \<and> pu_assignees req = [''alice''])
   \<and> (\<exists>req. filter is_update
               (snd (updatePR
                       (sample_client\<lparr>pulls_get :=
                          (\<lambda>r. Inr \<lparr>pd_body = Some ''Sync'', pd_assignees = Some []\<rparr>)\<rparr>)
                       ''fork-org'' ''widget'' 12 [''bob''] ''Merged upstream''))
            = [PullsUpdate req] \<and> pu_assignees req = [''bob''])"
proof -
  have a: "pulls_get sample_client \<lparr>pg_owner = ''fork-org'', pg_repo = ''widget'', pg_pull_number = 12\<rparr>
           = Inr \<lparr>pd_body = Some ''Sync of upstream'', pd_assignees = Some [\<lparr>login = ''alice''\<rparr>]\<rparr>"
    by (simp add: sample_client_def)
  have b: "pulls_get (sample_client\<lparr>pulls_get :=
                        (\<lambda>r. Inr \<lparr>pd_body = Some ''Sync'', pd_assignees = Some []\<rparr>)\<rparr>)
             \<lparr>pg_owner = ''fork-org'', pg_repo = ''widget'', pg_pull_number = 12\<rparr>
           = Inr \<lparr>pd_body = Some ''Sync'', pd_assignees = Some []\<rparr>"
    by simp
  show ?thesis
    using updatePR_assignees [OF a, of "''Sync of upstream''" "[''bob'']" "''Merged upstream''"]
          updatePR_assignees [OF b, of "''Sync''" "[''bob'']" "''Merged upstream''"]
    by simp
qed

subsection \<open>Merging, and reporting a failed merge\<close>

lemma failure_issue_call_calls:
  "\<exists>ireq. failure_issue_call client p err = (issues_create client ireq, [IssuesCreate ireq])"
  by (simp add: failure_issue_call_def createFailureIssue_def Let_def)

lemma mergePR_success:
  "pulls_merge client (merge_request p head) = Inr u \<Longrightarrow>
   mergePR client db p head = (Inr True, p, [PullsMerge (merge_request p head)])"
  by (simp add: mergePR_def Let_def)

lemma mergePR_report_rejected:
  "pulls_merge client (merge_request p head) = Inl err \<Longrightarrow>
   failure_issue_call client p err = (Inl e, cs) \<Longrightarrow>
   mergePR client db p head = (Inl e, p, PullsMerge (merge_request p head) # cs)"
  by (simp add: mergePR_def Let_def failure_issue_call_def)

lemma mergePR_reported:
  "pulls_merge client (merge_request p head) = Inl err \<Longrightarrow>
   failure_issue_call client p err = (Inr n, cs) \<Longrightarrow>
   mergePR client db p head =
     ((case setPendingPR db (p\<lparr>githubIssue := Some n, action := Blocked\<rparr>) of
         Some e \<Rightarrow> Inl e | None \<Rightarrow> Inr False),
      p\<lparr>githubIssue := Some n, action := Blocked\<rparr>,
      PullsMerge (merge_request p head) # cs @ [DbSetPendingPR (p\<lparr>githubIssue := Some n, action := Blocked\<rparr>)])"
  by (simp add: mergePR_def Let_def failure_issue_call_def split: option.splits)

lemma mergePR_cases:
  "(\<exists>u. pulls_merge client (merge_request p head) = Inr u
        \<and> mergePR client db p head = (Inr True, p, [PullsMerge (merge_request p head)]))
 \<or> (\<exists>err e ireq. pulls_merge client (merge_request p head) = Inl err
        \<and> failure_issue_call client p err = (Inl e, [IssuesCreate ireq])
        \<and> mergePR client db p head = (Inl e, p, [PullsMerge (merge_request p head), IssuesCreate ireq]))
 \<or> (\<exists>err n ireq res. pulls_merge client (merge_request p head) = Inl err
        \<and> failure_issue_call client p err = (Inr n, [IssuesCreate ireq])
        \<and> mergePR client db p head =
            (res, p\<lparr>githubIssue := Some n, action := Blocked\<rparr>,
             [PullsMerge (merge_request p head), IssuesCreate ireq,
              DbSetPendingPR (p\<lparr>githubIssue := Some n, action := Blocked\<rparr>)])
        \<and> res \<noteq> Inr True)"
proof (cases "pulls_merge client (merge_request p head)")
  case (Inr u)
  then show ?thesis by (simp add: mergePR_success)
next
  case (Inl err)
  obtain ireq where c: "failure_issue_call client p err = (issues_create client ireq, [IssuesCreate ireq])"
    using failure_issue_call_calls by blast
  show ?thesis
  proof (cases "issues_create client ireq")
    case (Inl e)
    with c have "failure_issue_call client p err = (Inl e, [IssuesCreate ireq])" by simp
    with \<open>pulls_merge client (merge_request p head) = Inl err\<close> show ?thesis
      by (simp add: mergePR_report_rejected)
  next
    case (Inr n)
    with c have "failure_issue_call client p err = (Inr n, [IssuesCreate ireq])" by simp
    with \<open>pulls_merge client (merge_request p head) = Inl err\<close> show ?thesis
      by (simp add: mergePR_reported split: option.splits)
  qed
qed


lemma sample_merge_rejected:
  "pulls_merge sample_client (merge_request sample_pr ''0ddba11'') = Inl head_modified"
  by (simp add: sample_client_def merge_request_def)

lemma sample_issue_created:
  "failure_issue_call sample_client sample_pr head_modified
   = (Inr 7, snd (failure_issue_call sample_client sample_pr head_modified))"
  by (simp add: failure_issue_call_def createFailureIssue_def Let_def sample_client_def)

lemma sample_issue_rejected:
  "failure_issue_call (sample_client\<lparr>issues_create := (\<lambda>r. Inl server_error)\<rparr>) sample_pr head_modified
   = (Inl server_error,
      snd (failure_issue_call (sample_client\<lparr>issues_create := (\<lambda>r. Inl server_error)\<rparr>) sample_pr head_modified))"
  by (simp add: failure_issue_call_def createFailureIssue_def Let_def)

lemma sample_merge_rejected_again:
  "pulls_merge (sample_client\<lparr>issues_create := (\<lambda>r. Inl server_error)\<rparr>) (merge_request sample_pr ''0ddba11'')
   = Inl head_modified"
  by (simp add: sample_client_def merge_request_def)

text \<open>
  C1. When the host rejects the merge and the \<open>createFailureIssue\<close> call of the \<open>catch\<close>
  clause returns the issue number \<open>n\<close>: \<open>mergePR\<close> leaves the record with
  \<open>githubIssue = n\<close> and \<open>action = Blocked\<close>; the calls it issued are the merge, the
  issue creation and \<open>db.setPendingPR\<close> with the updated record, in this order; the
  merge was attempted once; and it returns \<open>false\<close> once the store write resolves.
\<close>

theorem mergePR_failure_blocks:
  assumes "pulls_merge client (merge_request p head) = Inl err"
      and "failure_issue_call client p err = (Inr n, cs)"
  shows "fst (snd (mergePR client db p head)) = p\<lparr>githubIssue := Some n, action := Blocked\<rparr>
       \<and> githubIssue (fst (snd (mergePR client db p head))) = Some n
       \<and> action (fst (snd (mergePR client db p head))) = Blocked
       \<and> snd (snd (mergePR client db p head)) =
           PullsMerge (merge_request p head) # cs @
           [DbSetPendingPR (p\<lparr>githubIssue := Some n, action := Blocked\<rparr>)]
       \<and> (\<exists>ireq. cs = [IssuesCreate ireq] \<and> issues_create client ireq = Inr n)
       \<and> filter is_merge (snd (snd (mergePR client db p head))) = [PullsMerge (merge_request p head)]
       \<and> (setPendingPR db (p\<lparr>githubIssue := Some n, action := Blocked\<rparr>) = None \<longrightarrow>
            fst (mergePR client db p head) = Inr False)"
proof -
  obtain ireq where c: "failure_issue_call client p err = (issues_create client ireq, [IssuesCreate ireq])"
    using failure_issue_call_calls by blast
  with assms(2) have cs: "cs = [IssuesCreate ireq]" and n: "issues_create client ireq = Inr n"
    by simp_all
  show ?thesis
    using cs n by (simp add: mergePR_reported [OF assms])
qed


theorem mergePR_failure_blocks_witness:
  "pulls_merge sample_client (merge_request sample_pr ''0ddba11'') = Inl head_modified
   \<and> fst (mergePR sample_client sample_db sample_pr ''0ddba11'') = Inr False
   \<and> githubIssue (fst (snd (mergePR sample_client sample_db sample_pr ''0ddba11''))) = Some 7
   \<and> action (fst (snd (mergePR sample_client sample_db sample_pr ''0ddba11''))) = Blocked
   \<and> records_written (snd (snd (mergePR sample_client sample_db sample_pr ''0ddba11'')))
       = [sample_pr\<lparr>githubIssue := Some 7, action := Blocked\<rparr>]
   \<and> filter is_merge (snd (snd (mergePR sample_client sample_db sample_pr ''0ddba11'')))
       = [PullsMerge \<lparr>mg_owner = ''fork-org'', mg_repo = ''widget'', mg_pull_number = Some 12,
                      mg_merge_method = ''rebase'', mg_sha = ''0ddba11''\<rparr>]"
  using mergePR_failure_blocks [OF sample_merge_rejected sample_issue_created, of sample_db]
        sample_merge_rejected
  by (auto simp: sample_db_def merge_request_def sample_pr_def)

text \<open>
  C10. When the host rejects the merge and the issue creation itself fails with \<open>e\<close>:
  \<open>mergePR\<close> rejects with \<open>e\<close>, the record is as it was (action and \<open>githubIssue\<close>
  unchanged), and no call to the store was issued.
\<close>

theorem mergePR_report_failure_propagates:
  assumes "pulls_merge client (merge_request p head) = Inl err"
      and "failure_issue_call client p err = (Inl e, cs)"
  shows "fst (mergePR client db p head) = Inl e
       \<and> fst (snd (mergePR client db p head)) = p
       \<and> filter is_store_write (snd (snd (mergePR client db p head))) = []
       \<and> records_written (snd (snd (mergePR client db p head))) = []"
proof -
  obtain ireq where c: "failure_issue_call client p err = (issues_create client ireq, [IssuesCreate ireq])"
    using failure_issue_call_calls by blast
  with assms(2) have cs: "cs = [IssuesCreate ireq]"
    by simp
  show ?thesis
    using cs by (simp add: mergePR_report_rejected [OF assms])
qed

theorem mergePR_report_failure_propagates_witness:
  "fst (mergePR (sample_client\<lparr>issues_create := (\<lambda>r. Inl server_error)\<rparr>) sample_db sample_pr ''0ddba11'')
     = Inl server_error
   \<and> fst (snd (mergePR (sample_client\<lparr>issues_create := (\<lambda>r. Inl server_error)\<rparr>) sample_db sample_pr ''0ddba11''))
     = sample_pr
   \<and> action sample_pr = Pending
   \<and> records_written
       (snd (snd (mergePR (sample_client\<lparr>issues_create := (\<lambda>r. Inl server_error)\<rparr>) sample_db sample_pr ''0ddba11'')))
     = []"
  using mergePR_report_failure_propagates [OF sample_merge_rejected_again sample_issue_rejected, of sample_db]
  by (simp add: sample_pr_def)

text \<open>
  C2. No operation produces a blocked record without a tracking issue. \<open>mergePR\<close>, the
  one operation that takes a record, preserves the invariant, every record it changes
  satisfies it, and every record it hands to the store satisfies it; the other operations
  hand no record to the store.
\<close>

theorem blocked_has_issue_invariant:
  "(blocked_has_issue p \<or> fst (snd (mergePR client db p head)) \<noteq> p \<longrightarrow>
      blocked_has_issue (fst (snd (mergePR client db p head))))
   \<and> list_all blocked_has_issue (records_written (snd (snd (mergePR client db p head))))
   \<and> records_written (snd (createFailureIssue client org rp upstreamOrg br ids reason pr assignees patchCmd err)) = []
   \<and> records_written (snd (addComment client org rp ident message)) = []
   \<and> records_written (snd (updatePR client org rp ident logins message)) = []
   \<and> records_written (snd (getRequiredChecks client org rp br)) = []
   \<and> records_written (snd (getOwners b64 yaml_load client org rp br)) = []"
proof -
  have m: "(blocked_has_issue p \<or> fst (snd (mergePR client db p head)) \<noteq> p \<longrightarrow>
              blocked_has_issue (fst (snd (mergePR client db p head))))
         \<and> list_all blocked_has_issue (records_written (snd (snd (mergePR client db p head))))"
    using mergePR_cases [of client p head db]
    by (auto simp: blocked_has_issue_def)
  have c: "records_written (snd (createFailureIssue client org rp upstreamOrg br ids reason pr assignees patchCmd err)) = []"
    by (simp add: createFailureIssue_def Let_def)
  have a: "records_written (snd (addComment client org rp ident message)) = []"
    by (simp add: addComment_def Let_def split: sum.splits)
  have u: "records_written (snd (updatePR client org rp ident logins message)) = []"
    by (simp add: updatePR_def Let_def split: sum.splits option.splits)
  have r: "records_written (snd (getRequiredChecks client org rp br)) = []"
    by (simp add: getRequiredChecks_def Let_def split: sum.splits)
  have g: "records_written (snd (getOwners b64 yaml_load client org rp br)) = []"
    by (simp add: getOwners_def Let_def
             split: sum.splits option.splits)
  from m c a u r g show ?thesis by blast
qed

theorem blocked_has_issue_invariant_witness:
  "blocked_has_issue sample_pr
   \<and> action (fst (snd (mergePR sample_client sample_db sample_pr ''0ddba11''))) = Blocked
   \<and> githubIssue (fst (snd (mergePR sample_client sample_db sample_pr ''0ddba11''))) \<noteq> None
   \<and> blocked_has_issue (fst (snd (mergePR sample_client sample_db sample_pr ''0ddba11'')))"
proof -
  have p: "blocked_has_issue sample_pr"
    by (simp add: blocked_has_issue_def sample_pr_def)
  have m: "fst (snd (mergePR sample_client sample_db sample_pr ''0ddba11''))
           = sample_pr\<lparr>githubIssue := Some 7, action := Blocked\<rparr>"
    by (simp add: mergePR_reported [OF sample_merge_rejected sample_issue_created])
  show ?thesis
    using p m blocked_has_issue_invariant [of sample_pr sample_client sample_db "''0ddba11''"]
    by simp
qed

text \<open>
  C3. \<open>mergePR\<close> requests one merge, with the method \<open>rebase\<close>, constrained to the supplied
  head commit, for the record's pull request. On a host that rejects a merge constrained
  to a commit other than the pull request's actual head, a supplied head that differs from
  the actual head never gives the result \<open>true\<close> and never a record with action \<open>Merged\<close>
  (unless it was \<open>Merged\<close> before); the merge fails, and when the failure issue is created
  the record becomes \<open>Blocked\<close> with that issue.
\<close>

theorem mergePR_head_constraint:
  "filter is_merge (snd (snd (mergePR client db p head))) = [PullsMerge (merge_request p head)]
   \<and> mg_merge_method (merge_request p head) = ''rebase''
   \<and> mg_sha (merge_request p head) = head
   \<and> mg_pull_number (merge_request p head) = prID p
   \<and> ((\<forall>r. mg_sha r \<noteq> actual_head \<longrightarrow> isl (pulls_merge client r)) \<and> head \<noteq> actual_head \<longrightarrow>
         fst (mergePR client db p head) \<noteq> Inr True
       \<and> (action p \<noteq> Merged \<longrightarrow> action (fst (snd (mergePR client db p head))) \<noteq> Merged)
       \<and> (\<exists>err. pulls_merge client (merge_request p head) = Inl err
             \<and> (\<forall>n. fst (failure_issue_call client p err) = Inr n \<longrightarrow>
                   action (fst (snd (mergePR client db p head))) = Blocked
                 \<and> githubIssue (fst (snd (mergePR client db p head))) = Some n)))"
proof -
  have calls: "filter is_merge (snd (snd (mergePR client db p head))) = [PullsMerge (merge_request p head)]"
    using mergePR_cases [of client p head db] by auto
  have req: "mg_merge_method (merge_request p head) = ''rebase''
             \<and> mg_sha (merge_request p head) = head
             \<and> mg_pull_number (merge_request p head) = prID p"
    by (simp add: merge_request_def)
  have guard: "fst (mergePR client db p head) \<noteq> Inr True
       \<and> (action p \<noteq> Merged \<longrightarrow> action (fst (snd (mergePR client db p head))) \<noteq> Merged)
       \<and> (\<exists>err. pulls_merge client (merge_request p head) = Inl err
             \<and> (\<forall>n. fst (failure_issue_call client p err) = Inr n \<longrightarrow>
                   action (fst (snd (mergePR client db p head))) = Blocked
                 \<and> githubIssue (fst (snd (mergePR client db p head))) = Some n))"
    if contract: "\<forall>r. mg_sha r \<noteq> actual_head \<longrightarrow> isl (pulls_merge client r)"
      and stale: "head \<noteq> actual_head"
  proof -
    have "mg_sha (merge_request p head) \<noteq> actual_head"
      using stale by (simp add: merge_request_def)
    with contract have "isl (pulls_merge client (merge_request p head))"
      by blast
    then obtain err where rej: "pulls_merge client (merge_request p head) = Inl err"
      by (cases "pulls_merge client (merge_request p head)") simp_all
    show ?thesis
      using mergePR_cases [of client p head db] rej by auto
  qed
  from calls req guard show ?thesis by blast
qed

theorem mergePR_head_constraint_witness:
  "''0ddba11'' \<noteq> ''c0ffee''
   \<and> isl (pulls_merge sample_client (merge_request sample_pr ''0ddba11''))
   \<and> fst (mergePR sample_client sample_db sample_pr ''0ddba11'') \<noteq> Inr True
   \<and> action (fst (snd (mergePR sample_client sample_db sample_pr ''0ddba11''))) = Blocked
   \<and> mg_sha (merge_request sample_pr ''0ddba11'') = ''0ddba11''"
proof -
  have contract: "\<forall>r. mg_sha r \<noteq> ''c0ffee'' \<longrightarrow> isl (pulls_merge sample_client r)"
    by (simp add: sample_client_def)
  have stale: "''0ddba11'' \<noteq> ''c0ffee''"
    by simp
  have created: "fst (failure_issue_call sample_client sample_pr head_modified) = Inr 7"
    using sample_issue_created by (metis fst_conv)
  show ?thesis
    using contract stale created sample_merge_rejected
          mergePR_head_constraint [of sample_client sample_db sample_pr "''0ddba11''" "''c0ffee''"]
    by auto
qed

subsection \<open>The failure issue\<close>

lemma sublist_app_left: "sublist x a \<Longrightarrow> sublist x (a @ b)"
  by (auto simp: sublist_def) (metis append.assoc)

lemma issue_title_101_102:
  "issue_title [101, 102] = crying_cat @ '' Failed to sync the upstream PRs: #101, #102''"
  by (simp add: issue_title_def string_of_nat.simps digit_char_def)

lemma title_mentions_ids:
  "sublist ''#101'' (issue_title [101, 102])" "sublist ''#102'' (issue_title [101, 102])"
proof -
  have "issue_title [101, 102] = (crying_cat @ '' Failed to sync the upstream PRs: '') @ ''#101'' @ '', #102''"
    by (simp add: issue_title_101_102)
  then show "sublist ''#101'' (issue_title [101, 102])"
    by (simp only: sublist_appendI)
  have "issue_title [101, 102] = (crying_cat @ '' Failed to sync the upstream PRs: #101, '') @ ''#102''"
    by (simp add: issue_title_101_102)
  then show "sublist ''#102'' (issue_title [101, 102])"
    by (simp only: sublist_append_leftI)
qed

lemma sublist_opt_case:
  "sublist x a \<Longrightarrow> sublist x (case v of Some c \<Rightarrow> a @ f c | None \<Rightarrow> a)"
  by (cases v) (simp_all add: sublist_app_left)

lemma sublist_if_app:
  "sublist x a \<Longrightarrow> sublist x (if c then a @ e else a)"
  by (simp add: sublist_app_left)

lemma body_has_paused_phrase:
  "sublist (paused_phrase org rp br) (issue_body org rp upstreamOrg br ids reason pr patchCmd err)"
  unfolding issue_body_def Let_def
  by (rule sublist_app_left, rule sublist_opt_case, rule sublist_if_app, rule sublist_append_leftI)

lemma error_block_fenced:
  "b @ ''\<newline>Syncing error:\<newline>```\<newline>'' @ s @ ''\<newline>```\<newline>''
   = (b @ ''\<newline>Syncing error:\<newline>'') @ fenced s @ ''\<newline>''"
  by (simp add: fenced_def fence_def)

lemma body_has_fenced_error:
  assumes "truthy err"
  shows "sublist (fenced (to_string err)) (issue_body org rp upstreamOrg br ids reason pr patchCmd err)"
  unfolding issue_body_def Let_def
  apply (rule sublist_app_left, rule sublist_opt_case)
  apply (simp only: assms if_True error_block_fenced sublist_appendI)
  done

text \<open>
  C4, as the claim states it, fails for an \<open>err\<close> that is supplied but falsy: the guard is
  \<open>if (err)\<close>. With the empty string for \<open>err\<close> the body has no fence at all, so no
  fenced block holds the text of \<open>err\<close>.
\<close>

theorem createFailureIssue_empty_err_counterexample:
  "snd (createFailureIssue sample_client ''fork-org'' ''widget'' ''upstream-org'' ''main''
          [101, 102] ''stale head'' None None None (JStr []))
   = [IssuesCreate \<lparr>ic_owner = ''fork-org'', ic_repo = ''widget'',
                    ic_title = crying_cat @ '' Failed to sync the upstream PRs: #101, #102'',
                    ic_body = sample_report_body, ic_assignees = None\<rparr>]
   \<and> \<not> sublist (fenced (to_string (JStr []))) sample_report_body
   \<and> \<not> sublist fence sample_report_body"
proof -
  have body: "issue_body ''fork-org'' ''widget'' ''upstream-org'' ''main'' [101, 102] ''stale head''
                None None (JStr []) = sample_report_body"
    by (simp add: issue_body_def Let_def paused_phrase_def sample_report_body_def
          string_of_nat.simps digit_char_def)
  have nofence: "\<not> sublist fence sample_report_body"
    unfolding sample_report_body_def fence_def mirror_def
    by (simp add: sublist_Cons_right)
  have "sublist fence (fenced (to_string (JStr [])))"
    by (simp add: fenced_def)
  with nofence have "\<not> sublist (fenced (to_string (JStr []))) sample_report_body"
    using sublist_order.order_trans by blast
  with body nofence show ?thesis
    by (simp add: createFailureIssue_def Let_def issue_title_101_102)
qed

text \<open>
  C4, amended. For the upstream pull requests \<open>[101, 102]\<close>, the reason \<open>stale head\<close> and
  no \<open>prID\<close>, \<open>createFailureIssue\<close> issues one \<open>issues.create\<close> call: its title contains
  \<open>#101\<close> and \<open>#102\<close>; its body contains the sentence that syncing is paused for the
  branch; when \<open>err\<close> is truthy, its text stands in the body inside a fenced block; and
  the result is what the host answers to that call, the number of the issue.
\<close>

theorem createFailureIssue_report:
  "\<exists>req. snd (createFailureIssue client org rp upstreamOrg br [101, 102] ''stale head'' None
                 assignees patchCmd err) = [IssuesCreate req]
     \<and> sublist ''#101'' (ic_title req) \<and> sublist ''#102'' (ic_title req)
     \<and> sublist (paused_phrase org rp br) (ic_body req)
     \<and> (truthy err \<longrightarrow> sublist (fenced (to_string err)) (ic_body req))
     \<and> fst (createFailureIssue client org rp upstreamOrg br [101, 102] ''stale head'' None
               assignees patchCmd err) = issues_create client req"
  by (simp add: createFailureIssue_def Let_def title_mentions_ids body_has_paused_phrase
        body_has_fenced_error)

theorem createFailureIssue_report_witness:
  "truthy (JStr ''merge conflict'')
   \<and> (\<exists>req. snd (createFailureIssue sample_client ''fork-org'' ''widget'' ''upstream-org'' ''main''
                    [101, 102] ''stale head'' None None None (JStr ''merge conflict'')) = [IssuesCreate req]
          \<and> sublist ''```\<newline>merge conflict\<newline>```'' (ic_body req)
          \<and> sublist ''#101'' (ic_title req) \<and> sublist ''#102'' (ic_title req))
   \<and> fst (createFailureIssue sample_client ''fork-org'' ''widget'' ''upstream-org'' ''main''
            [101, 102] ''stale head'' None None None (JStr ''merge conflict'')) = Inr 7"
  using createFailureIssue_report [of sample_client "''fork-org''" "''widget''" "''upstream-org''" "''main''"
          None None "JStr ''merge conflict''"]
  by (auto simp: fenced_def fence_def sample_client_def)

subsection \<open>Owners\<close>

lemma getOwners_calls:
  "snd (getOwners b64 yaml_load client org repoName branchName)
   = [ReposGetContent (owners_request org repoName branchName)]"
  by (simp add: getOwners_def Let_def
        split: sum.splits option.splits)

lemma getOwners_rejected:
  "repos_getContent client (owners_request org repoName branchName) = Inl e \<Longrightarrow>
   fst (getOwners b64 yaml_load client org repoName branchName) = Inl (retrieval_error e)"
  by (simp add: getOwners_def Let_def)

lemma getOwners_parsed:
  "repos_getContent client (owners_request org repoName branchName) = Inr obj \<Longrightarrow>
   content_string obj = Some content \<Longrightarrow>
   yaml_load (b64 content) = Inr ownersObj \<Longrightarrow>
   fst (getOwners b64 yaml_load client org repoName branchName)
     = Inr (case approvers_of ownersObj of Some xs \<Rightarrow> xs | None \<Rightarrow> [])"
  by (simp add: getOwners_def Let_def split: option.splits)

lemma getOwners_no_content:
  "repos_getContent client (owners_request org repoName branchName) = Inr obj \<Longrightarrow>
   content_string obj = None \<Longrightarrow>
   fst (getOwners b64 yaml_load client org repoName branchName) = Inr []"
  by (simp add: getOwners_def Let_def)

text \<open>A response of the client has no \<open>content\<close> property of its own, whatever its payload.\<close>

lemma content_string_octokit_response:
  "content_string (octokit_response status url headers payload) = None"
  by (simp add: octokit_response_def)

text \<open>
  So whenever the retrieval resolves to a response of the client, \<open>getOwners\<close> returns the
  empty list, and neither decodes nor parses the payload.
\<close>

lemma getOwners_octokit_response:
  "repos_getContent client (owners_request org repoName branchName)
     = Inr (octokit_response status url headers payload) \<Longrightarrow>
   fst (getOwners b64 yaml_load client org repoName branchName) = Inr []"
  by (rule getOwners_no_content [OF _ content_string_octokit_response])

text \<open>
  C5. The claim fails on the code for a well-formed payload. The host serves \<open>OWNERS\<close>
  with the text \<open>approvers: [alice]\<close>: the retrieval asks for the path \<open>OWNERS\<close> at the
  branch and resolves to the response whose \<open>data\<close> holds the base64 content, and the
  decoded content parses to a mapping whose \<open>approvers\<close> list is \<open>[alice]\<close>. The claim
  says that \<open>getOwners\<close> returns exactly that list; it returns the empty list, because it
  looks for \<open>content\<close> in the response and not in its \<open>data\<close>. Given the payload itself,
  the same code returns the list.
\<close>

theorem getOwners_response_data_unread:
  "repos_getContent sample_client (owners_request ''fork-org'' ''widget'' ''main'')
     = Inr (octokit_response 200 ''https://api.github.com/repos/fork-org/widget/contents/OWNERS?ref=main''
              [(''content-type'', VStr ''application/json; charset=utf-8'')]
              (VObject sample_owners_file))
   \<and> map_of sample_owners_file ''content'' = Some (VStr ''YXBwcm92ZXJzOiBbYWxpY2VdCg=='')
   \<and> yaml_with_approvers (sample_b64 ''YXBwcm92ZXJzOiBbYWxpY2VdCg=='')
     = Inr (YMap [(''reviewers'', YSeq [YStr ''bob'']), (''approvers'', YSeq [YStr ''alice''])])
   \<and> getOwners sample_b64 yaml_with_approvers sample_client ''fork-org'' ''widget'' ''main''
     = (Inr [],
        [ReposGetContent \<lparr>gc_owner = ''fork-org'', gc_repo = ''widget'', gc_path = ''OWNERS'',
                          gc_ref = ''main'', gc_format = ''application/vnd.github+json''\<rparr>])
   \<and> fst (getOwners sample_b64 yaml_with_approvers sample_client ''fork-org'' ''widget'' ''main'')
     \<noteq> Inr [YStr ''alice'']
   \<and> fst (getOwners sample_b64 yaml_with_approvers
            (sample_client\<lparr>repos_getContent := (\<lambda>r. Inr (ResolvedObject sample_owners_file))\<rparr>)
            ''fork-org'' ''widget'' ''main'')
     = Inr [YStr ''alice'']"
  by (simp add: getOwners_def Let_def owners_request_def sample_client_def
        sample_owners_response_def octokit_response_def sample_owners_file_def
        yaml_with_approvers_def)

text \<open>
  C6, as the claim states it, fails: the host reports a file that does not exist by
  rejecting the retrieval with status 404, and \<open>getOwners\<close> turns every rejection into
  its own error.
\<close>

theorem getOwners_not_found_counterexample:
  "repos_getContent (sample_client\<lparr>repos_getContent := (\<lambda>r. Inl not_found)\<rparr>)
     (owners_request ''fork-org'' ''widget'' ''main'') = Inl not_found
   \<and> http_status not_found = Some 404
   \<and> fst (getOwners sample_b64 yaml_with_approvers
            (sample_client\<lparr>repos_getContent := (\<lambda>r. Inl not_found)\<rparr>) ''fork-org'' ''widget'' ''main'')
     = Inl (JErrorObj ''Error'' ''failed to retrieve OWNERS file: HttpError: Not Found'' None)
   \<and> fst (getOwners sample_b64 yaml_with_approvers
            (sample_client\<lparr>repos_getContent := (\<lambda>r. Inl not_found)\<rparr>) ''fork-org'' ''widget'' ''main'')
     \<noteq> Inr []"
  by (simp add: getOwners_def Let_def retrieval_error_def new_Error_def not_found_def)

text \<open>
  C6, amended. When the retrieval is rejected with status 404 (the file does not exist),
  \<open>getOwners\<close> rejects with the error \<open>failed to retrieve OWNERS file: ...\<close>, having
  issued the one retrieval; and it returns the empty list only if the retrieval succeeded.
\<close>

theorem getOwners_absent_file:
  "(\<forall>e. repos_getContent client (owners_request org repoName branchName) = Inl e
        \<and> http_status e = Some 404 \<longrightarrow>
          getOwners b64 yaml_load client org repoName branchName
          = (Inl (retrieval_error e), [ReposGetContent (owners_request org repoName branchName)]))
   \<and> (fst (getOwners b64 yaml_load client org repoName branchName) = Inr [] \<longrightarrow>
        (\<exists>obj. repos_getContent client (owners_request org repoName branchName) = Inr obj))"
proof -
  have absent: "getOwners b64 yaml_load client org repoName branchName
          = (Inl (retrieval_error e), [ReposGetContent (owners_request org repoName branchName)])"
    if "repos_getContent client (owners_request org repoName branchName) = Inl e" for e
    using getOwners_rejected [OF that, of b64 yaml_load] getOwners_calls [of b64 yaml_load client org repoName branchName]
    by (metis prod.collapse)
  have empty: "\<exists>obj. repos_getContent client (owners_request org repoName branchName) = Inr obj"
    if "fst (getOwners b64 yaml_load client org repoName branchName) = Inr []"
  proof (cases "repos_getContent client (owners_request org repoName branchName)")
    case (Inl e)
    from getOwners_rejected [OF Inl, of b64 yaml_load] that show ?thesis by simp
  next
    case (Inr obj)
    then show ?thesis by blast
  qed
  from absent empty show ?thesis by blast
qed

theorem getOwners_absent_file_witness:
  "http_status not_found = Some 404
   \<and> getOwners sample_b64 yaml_with_approvers
       (sample_client\<lparr>repos_getContent := (\<lambda>r. Inl not_found)\<rparr>) ''fork-org'' ''widget'' ''main''
     = (Inl (retrieval_error not_found), [ReposGetContent (owners_request ''fork-org'' ''widget'' ''main'')])
   \<and> fst (getOwners sample_b64 yaml_without_approvers sample_client ''fork-org'' ''widget'' ''main'') = Inr []
   \<and> (\<exists>obj. repos_getContent sample_client (owners_request ''fork-org'' ''widget'' ''main'') = Inr obj)"
proof -
  have e: "fst (getOwners sample_b64 yaml_without_approvers sample_client ''fork-org'' ''widget'' ''main'') = Inr []"
    by (simp add: getOwners_def Let_def sample_client_def sample_owners_response_def
          octokit_response_def)
  show ?thesis
    using e
      getOwners_absent_file [of "sample_client\<lparr>repos_getContent := (\<lambda>r. Inl not_found)\<rparr>"
         "''fork-org''" "''widget''" "''main''" sample_b64 yaml_with_approvers]
      getOwners_absent_file [of sample_client "''fork-org''" "''widget''" "''main''" sample_b64 yaml_without_approvers]
    by (simp add: not_found_def)
qed

end
